theory Spec2Isabelle
  imports Main "HOL-Library.Sublist"
begin

section \<open>The PhoneField component (src/components/PhoneField/PhoneField.tsx)\<close>

text \<open>
  The component is a React function component. Its hooks are modelled by explicit state
  passing: one record holds the seven \<open>useState\<close> cells, every handler is a function
  from the state of the render it was created in to the state after its queued updates.
  A handler sees the state variables of its own render only: a value passed to a setter
  is not visible to the statements that follow in the same handler.
  The props do not change during the life of the component in this model.
\<close>

subsection \<open>JavaScript built-ins used by the component\<close>

datatype js_error = TypeError

text \<open>\<open>String.prototype.toLowerCase\<close> on the ASCII range: the 26 capital letters map to
  their small letters, every other character is kept.\<close>

definition toLowerChar :: "char \<Rightarrow> char" where
  "toLowerChar c =
     (case map_of (zip ''ABCDEFGHIJKLMNOPQRSTUVWXYZ'' ''abcdefghijklmnopqrstuvwxyz'') c of
        Some d \<Rightarrow> d
      | None \<Rightarrow> c)"

definition toLowerCase :: "string \<Rightarrow> string" where
  "toLowerCase s = map toLowerChar s"

text \<open>\<open>s.startsWith(search)\<close>: the first \<open>search.length\<close> characters of \<open>s\<close> are
  \<open>search\<close>.\<close>

definition startsWith :: "string \<Rightarrow> string \<Rightarrow> bool" where
  "startsWith s search = (take (length search) s = search)"

text \<open>\<open>Array.prototype.findIndex\<close>: the first index whose element satisfies the predicate,
  \<open>-1\<close> when there is none.\<close>

fun findIndexFrom :: "('a \<Rightarrow> bool) \<Rightarrow> nat \<Rightarrow> 'a list \<Rightarrow> int" where
  "findIndexFrom P k [] = -1"
| "findIndexFrom P k (x # xs) = (if P x then int k else findIndexFrom P (Suc k) xs)"

definition findIndex :: "('a \<Rightarrow> bool) \<Rightarrow> 'a list \<Rightarrow> int" where
  "findIndex P xs = findIndexFrom P 0 xs"

text \<open>\<open>xs[i]\<close> for a number \<open>i\<close>: \<open>undefined\<close> (here \<open>None\<close>) outside \<open>0 .. length - 1\<close>.
  Reading a property of \<open>undefined\<close> throws a \<open>TypeError\<close>.\<close>

definition at_index :: "'a list \<Rightarrow> int \<Rightarrow> 'a option" where
  "at_index xs i = (if 0 \<le> i \<and> i < int (length xs) then Some (xs ! nat i) else None)"

text \<open>Truthiness of a \<open>string | null\<close>: \<open>null\<close> and the empty string are falsy.\<close>

fun truthy :: "string option \<Rightarrow> bool" where
  "truthy None = False"
| "truthy (Some s) = (s \<noteq> [])"

text \<open>\<open>a || b\<close> for \<open>a : string | null\<close> and \<open>b : string\<close>.\<close>

definition js_or :: "string option \<Rightarrow> string \<Rightarrow> string" where
  "js_or a b = (if truthy a then the a else b)"

subsection \<open>Data\<close>

text \<open>The field \<open>image\<close> of a country is \<open>image_flag\<close> here, and its optional
  \<open>errorMessage\<close> is \<open>countryErrorMessage\<close>, apart from the \<open>errorMessage\<close> of the props.\<close>

record Country =
  image_flag :: string
  countryName :: string
  countryCode :: string
  areaCodes :: "int list option"
  countryErrorMessage :: "string option"
  formatter :: "string \<Rightarrow> string option"

record PhoneFieldProps =
  placeholder :: "string option"
  labelName :: string
  labelHidden :: "bool option"
  optional :: "bool option"
  errorMessage :: string
  countries :: "Country list"

text \<open>An item of the action list. Its \<open>onAction\<close> closure is one of two: the items of
  \<open>allCountries\<close> call \<open>handleSelected(index)\<close>, the items of \<open>retrieveCountries\<close> call
  \<open>handleSelected(retrieveCountryIndex(countryName))\<close>.\<close>

datatype action = SelectIndex int | SelectName string

record item =
  content :: string
  onAction :: action

record state =
  phoneNumber :: string
  formattedPhoneNumber :: "string option"
  popoverActive :: bool
  selectedCountry :: int
  error :: "string option"
  searchBarText :: string
  countryOptions :: "item list"

subsection \<open>The component\<close>

definition allCountries :: "PhoneFieldProps \<Rightarrow> item list" where
  "allCountries p =
     map (\<lambda>(index, c).
            \<lparr>content = image_flag c @ ''  '' @ countryName c @ '' ('' @ countryCode c @ '')'',
             onAction = SelectIndex (int index)\<rparr>)
         (enumerate 0 (countries p))"

definition initial :: "PhoneFieldProps \<Rightarrow> state" where
  "initial p =
     \<lparr>phoneNumber = '''',
      formattedPhoneNumber = None,
      popoverActive = (length (countries p) > 1),
      selectedCountry = 0,
      error = None,
      searchBarText = '''',
      countryOptions = allCountries p\<rparr>"

definition togglePopoverActive :: "PhoneFieldProps \<Rightarrow> state \<Rightarrow> state" where
  "togglePopoverActive p s =
     s\<lparr>popoverActive := \<not> popoverActive s,
       searchBarText := '''',
       countryOptions := allCountries p\<rparr>"

definition retrieveCountryIndex :: "PhoneFieldProps \<Rightarrow> string \<Rightarrow> int" where
  "retrieveCountryIndex p name =
     findIndex (\<lambda>element. countryName element = name) (countries p)"

definition handleSelected :: "PhoneFieldProps \<Rightarrow> int \<Rightarrow> state \<Rightarrow> state" where
  "handleSelected p index s = togglePopoverActive p (s\<lparr>selectedCountry := index\<rparr>)"

text \<open>The item built for one country by the \<open>map\<close> of \<open>retrieveCountries\<close>.\<close>

definition candidate :: "Country \<Rightarrow> item" where
  "candidate c =
     \<lparr>content = image_flag c @ '' '' @ countryName c @ '' ('' @ countryCode c @ '')'',
      onAction = SelectName (countryName c)\<rparr>"

definition retrieveCountries :: "PhoneFieldProps \<Rightarrow> string \<Rightarrow> item list" where
  "retrieveCountries p search =
     map candidate
       (filter (\<lambda>countryObj. startsWith (toLowerCase (countryName countryObj)) (toLowerCase search))
          (countries p))"

definition handleSearchBar :: "PhoneFieldProps \<Rightarrow> string \<Rightarrow> state \<Rightarrow> state" where
  "handleSearchBar p country s =
     s\<lparr>searchBarText := country, countryOptions := retrieveCountries p country\<rparr>"

text \<open>Running the \<open>onAction\<close> closure of an item.\<close>

fun runAction :: "PhoneFieldProps \<Rightarrow> action \<Rightarrow> state \<Rightarrow> state" where
  "runAction p (SelectIndex index) s = handleSelected p index s"
| "runAction p (SelectName name) s = handleSelected p (retrieveCountryIndex p name) s"

definition setPhoneNumber :: "string \<Rightarrow> state \<Rightarrow> state" where
  "setPhoneNumber v s = s\<lparr>phoneNumber := v\<rparr>"

definition handleFormat :: "PhoneFieldProps \<Rightarrow> state \<Rightarrow> string \<Rightarrow> js_error + state" where
  "handleFormat p s number =
     (case at_index (countries p) (selectedCountry s) of
        None \<Rightarrow> Inl TypeError
      | Some c \<Rightarrow> Inr (s\<lparr>formattedPhoneNumber := formatter c number\<rparr>))"

text \<open>The \<open>onBlur\<close> handler of the phone text field. The condition of \<open>setError\<close> reads
  \<open>formattedPhoneNumber\<close> of the render the handler belongs to, that is of \<open>s\<close>, not the
  value \<open>handleFormat\<close> has just queued.\<close>

definition onBlur :: "PhoneFieldProps \<Rightarrow> state \<Rightarrow> js_error + state" where
  "onBlur p s =
     (case handleFormat p s (phoneNumber s) of
        Inl e \<Rightarrow> Inl e
      | Inr s' \<Rightarrow>
          Inr (s'\<lparr>error := (if truthy (formattedPhoneNumber s) then None
                             else Some (errorMessage p))\<rparr>))"

subsection \<open>What a render shows\<close>

datatype activator = Disclosure string | Plain string

record view =
  textFieldLabel :: string
  textFieldValue :: string
  popoverIsActive :: bool
  popoverActivator :: activator
  searchValue :: string
  listItems :: "item list"
  errorText :: "string option"

definition render :: "PhoneFieldProps \<Rightarrow> state \<Rightarrow> js_error + view" where
  "render p s =
     (case at_index (countries p) (selectedCountry s) of
        None \<Rightarrow> Inl TypeError
      | Some c \<Rightarrow>
          (let buttonContent = countryName c @ '' ('' @ countryCode c @ '')''
           in Inr
             \<lparr>textFieldLabel =
                (if optional p = Some True then labelName p @ '' (optional)'' else labelName p),
              textFieldValue = js_or (formattedPhoneNumber s) (phoneNumber s),
              popoverIsActive = popoverActive s,
              popoverActivator =
                (if length (countries p) > 1 then Disclosure buttonContent
                 else Plain (countryName c)),
              searchValue = searchBarText s,
              listItems = countryOptions s,
              errorText = error s\<rparr>))"

text \<open>Mounting: the initial state, and the first render.\<close>

definition mount :: "PhoneFieldProps \<Rightarrow> js_error + state" where
  "mount p = (case render p (initial p) of Inl e \<Rightarrow> Inl e | Inr v \<Rightarrow> Inr (initial p))"

subsection \<open>Events\<close>

datatype event =
    ActivatorClick
  | PopoverClose
  | SearchChange string
  | ItemAction nat
  | PhoneChange string
  | PhoneBlur

text \<open>Modelled from the spec: the popover host (\<open>../Popover\<close>) and the list host
  (\<open>../ActionList\<close>) are not part of the sources at hand. The spec says of the popover host
  that, given the active flag and an activator, it renders its children when active and
  signals a close request; the search box and the action list are its children, and
  activating a listed item is the only way a selection is triggered. So the close request,
  a search change and an item action are offered while \<open>popoverActive\<close> holds. The
  activator's click handler is in the source: the button has \<open>onClick\<close> when there is
  more than one country and has none otherwise.\<close>

fun offered :: "PhoneFieldProps \<Rightarrow> state \<Rightarrow> event \<Rightarrow> bool" where
  "offered p s ActivatorClick = (length (countries p) > 1)"
| "offered p s PopoverClose = popoverActive s"
| "offered p s (SearchChange q) = popoverActive s"
| "offered p s (ItemAction i) = (popoverActive s \<and> i < length (countryOptions s))"
| "offered p s (PhoneChange v) = True"
| "offered p s PhoneBlur = True"

fun handle :: "PhoneFieldProps \<Rightarrow> event \<Rightarrow> state \<Rightarrow> js_error + state" where
  "handle p ActivatorClick s = Inr (togglePopoverActive p s)"
| "handle p PopoverClose s = Inr (togglePopoverActive p s)"
| "handle p (SearchChange q) s = Inr (handleSearchBar p q s)"
| "handle p (ItemAction i) s = Inr (runAction p (onAction (countryOptions s ! i)) s)"
| "handle p (PhoneChange v) s = Inr (setPhoneNumber v s)"
| "handle p PhoneBlur s = onBlur p s"

text \<open>One event: the handler runs, then the component renders again. An event that is
  not offered has no handler to run and leaves the state as it is.\<close>

definition dispatch :: "PhoneFieldProps \<Rightarrow> event \<Rightarrow> state \<Rightarrow> js_error + state" where
  "dispatch p e s =
     (if \<not> offered p s e then Inr s
      else case handle p e s of
             Inl err \<Rightarrow> Inl err
           | Inr s' \<Rightarrow> (case render p s' of Inl err \<Rightarrow> Inl err | Inr v \<Rightarrow> Inr s'))"

fun run :: "PhoneFieldProps \<Rightarrow> state \<Rightarrow> event list \<Rightarrow> js_error + state" where
  "run p s [] = Inr s"
| "run p s (e # es) = (case dispatch p e s of Inl err \<Rightarrow> Inl err | Inr s' \<Rightarrow> run p s' es)"

text \<open>An action refers to the registry when its index is an index of the registry, or its
  name is the name of one of the countries. A state is well formed when its selected
  index is an index of the registry and every item of its list refers to the registry.\<close>

fun registry_action :: "PhoneFieldProps \<Rightarrow> action \<Rightarrow> bool" where
  "registry_action p (SelectIndex j) = (0 \<le> j \<and> j < int (length (countries p)))"
| "registry_action p (SelectName n) = (n \<in> countryName ` set (countries p))"

definition well_formed :: "PhoneFieldProps \<Rightarrow> state \<Rightarrow> bool" where
  "well_formed p s =
     (at_index (countries p) (selectedCountry s) \<noteq> None
      \<and> (\<forall>it \<in> set (countryOptions s). registry_action p (onAction it)))"

subsection \<open>Example registries\<close>

text \<open>A formatter that accepts exactly ten characters, and one that keeps the digits of
  its input.\<close>

definition ten_formatter :: "string \<Rightarrow> string option" where
  "ten_formatter x = (if length x = 10 then Some ''(xxx) xxx-xxxx'' else None)"

definition digits_formatter :: "string \<Rightarrow> string option" where
  "digits_formatter x = Some (filter (\<lambda>c. c \<in> set ''0123456789'') x)"

definition canada :: Country where
  "canada =
     \<lparr>image_flag = ''CA'', countryName = ''Canada'', countryCode = ''+1'',
      areaCodes = None, countryErrorMessage = None, formatter = ten_formatter\<rparr>"

definition cameroon :: Country where
  "cameroon =
     \<lparr>image_flag = ''CM'', countryName = ''Cameroon'', countryCode = ''+237'',
      areaCodes = None, countryErrorMessage = None, formatter = digits_formatter\<rparr>"

definition usa :: Country where
  "usa =
     \<lparr>image_flag = ''US'', countryName = ''USA'', countryCode = ''+1'',
      areaCodes = None, countryErrorMessage = None, formatter = ten_formatter\<rparr>"

definition two_countries :: PhoneFieldProps where
  "two_countries =
     \<lparr>placeholder = None, labelName = ''Phone'', labelHidden = None, optional = None,
      errorMessage = ''Invalid phone number'', countries = [canada, cameroon]\<rparr>"

definition one_country :: PhoneFieldProps where
  "one_country =
     \<lparr>placeholder = None, labelName = ''Phone'', labelHidden = None, optional = None,
      errorMessage = ''Invalid phone number'', countries = [usa]\<rparr>"

section \<open>Properties\<close>

lemmas example_defs = ten_formatter_def digits_formatter_def canada_def cameroon_def usa_def
  two_countries_def one_country_def

lemmas machine_defs = initial_def dispatch_def onBlur_def handleFormat_def at_index_def
  render_def setPhoneNumber_def allCountries_def enumerate_eq_zip togglePopoverActive_def
  handleSelected_def handleSearchBar_def retrieveCountries_def retrieveCountryIndex_def
  findIndex_def candidate_def startsWith_def toLowerCase_def toLowerChar_def js_or_def
  mount_def

subsection \<open>Built-ins\<close>


lemma findIndexFrom_none: "\<forall>x\<in>set xs. \<not> P x \<Longrightarrow> findIndexFrom P k xs = -1"
  by (induction xs arbitrary: k) auto

lemma findIndexFrom_some:
  "\<exists>x\<in>set xs. P x \<Longrightarrow>
     \<exists>j<length xs. findIndexFrom P k xs = int (k + j) \<and> P (xs ! j) \<and> (\<forall>m<j. \<not> P (xs ! m))"
proof (induction xs arbitrary: k)
  case Nil
  then show ?case by simp
next
  case (Cons x xs)
  show ?case
  proof (cases "P x")
    case True
    then show ?thesis by (intro exI[of _ 0]) simp
  next
    case False
    with Cons.prems have "\<exists>x\<in>set xs. P x" by simp
    from Cons.IH[OF this, of "Suc k"] obtain j where j: "j < length xs"
      "findIndexFrom P (Suc k) xs = int (Suc k + j)" "P (xs ! j)" "\<forall>m<j. \<not> P (xs ! m)"
      by blast
    show ?thesis
    proof (intro exI[of _ "Suc j"] conjI allI impI)
      fix m assume "m < Suc j"
      then show "\<not> P ((x # xs) ! m)" using False j(4) by (cases m) auto
    qed (use False j in auto)
  qed
qed

subsection \<open>Formatting on blur\<close>

text \<open>What the blur handler does: the display value comes from the formatter of the active
  country, the error from the display value of the render before.\<close>

lemma onBlur_effect:
  assumes "at_index (countries p) (selectedCountry s) = Some c"
  shows "onBlur p s =
           Inr (s\<lparr>formattedPhoneNumber := formatter c (phoneNumber s),
                  error := (if truthy (formattedPhoneNumber s) then None
                            else Some (errorMessage p))\<rparr>)"
  using assms by (simp add: onBlur_def handleFormat_def)

text \<open>Claim C1 says that typing an input the active country's formatter accepts and then
  leaving the field gives the formatted display value and no error. On a freshly mounted
  field with the single country \<open>usa\<close>, typing ten characters and leaving the field gives
  the formatted value together with the configured error text.\<close>

theorem commit_valid_shows_error:
  "formatter usa ''5551234567'' = Some ''(xxx) xxx-xxxx''
   \<and> (case run one_country (initial one_country) [PhoneChange ''5551234567'', PhoneBlur] of
        Inl e \<Rightarrow> False
      | Inr s \<Rightarrow> formattedPhoneNumber s = Some ''(xxx) xxx-xxxx''
           \<and> error s = Some ''Invalid phone number'')"
  by (simp add: example_defs machine_defs)

text \<open>Claim C2 says that typing an input the formatter rejects and then leaving the field
  gives no display value and the configured error text, whatever was formatted before.
  After one accepted input, a rejected input leaves the field with no display value and
  no error.\<close>

theorem commit_invalid_after_valid_no_error:
  "formatter usa ''555'' = None
   \<and> (case run one_country (initial one_country)
             [PhoneChange ''5551234567'', PhoneBlur, PhoneChange ''555'', PhoneBlur] of
        Inl e \<Rightarrow> False
      | Inr s \<Rightarrow> formattedPhoneNumber s = None \<and> error s = None)"
  by (simp add: example_defs machine_defs)

text \<open>Claim C3 says that after every formatting attempt the display value and the error are
  never both set. With two countries, closing the popover, typing a number that \<open>canada\<close>
  accepts and leaving the field sets both.\<close>

theorem commit_both_set:
  "(case run two_countries (initial two_countries)
           [ActivatorClick, PhoneChange ''6135550100'', PhoneBlur] of
      Inl e \<Rightarrow> False
    | Inr s \<Rightarrow> formattedPhoneNumber s \<noteq> None \<and> error s \<noteq> None)"
  by (simp add: example_defs machine_defs)

subsection \<open>The search filter\<close>



text \<open>Claim C5: with the empty query, \<open>retrieveCountries\<close> returns one item for every country
  of the registry, in the order of the registry.\<close>

theorem filter_empty_query:
  "retrieveCountries p '''' = map candidate (countries p)
   \<and> length (retrieveCountries p '''') = length (countries p)
   \<and> map onAction (retrieveCountries p '''')
       = map (\<lambda>c. SelectName (countryName c)) (countries p)"
  by (simp add: retrieveCountries_def startsWith_def toLowerCase_def candidate_def)

subsection \<open>Selecting a country\<close>

lemma retrieveCountryIndex_found:
  assumes "c \<in> set (countries p)"
  shows "\<exists>j<length (countries p).
           retrieveCountryIndex p (countryName c) = int j
         \<and> countryName (countries p ! j) = countryName c
         \<and> (\<forall>m<j. countryName (countries p ! m) \<noteq> countryName c)"
proof -
  from assms have "\<exists>x\<in>set (countries p). countryName x = countryName c" by blast
  from findIndexFrom_some[of "countries p" "\<lambda>e. countryName e = countryName c" 0, OF this]
  show ?thesis by (simp add: retrieveCountryIndex_def findIndex_def)
qed

lemma handleSelected_fields:
  "selectedCountry (handleSelected p i s) = i"
  "popoverActive (handleSelected p i s) = (\<not> popoverActive s)"
  "searchBarText (handleSelected p i s) = []"
  "countryOptions (handleSelected p i s) = allCountries p"
  "phoneNumber (handleSelected p i s) = phoneNumber s"
  "formattedPhoneNumber (handleSelected p i s) = formattedPhoneNumber s"
  "error (handleSelected p i s) = error s"
  by (simp_all add: handleSelected_def togglePopoverActive_def)

lemma allCountries_nth:
  "j < length (countries p) \<Longrightarrow> onAction (allCountries p ! j) = SelectIndex (int j)"
  by (simp add: allCountries_def nth_enumerate_eq)

text \<open>Claim C6: while the popover is open (the list is shown in the open popover only),
  activating a candidate sets \<open>selectedCountry\<close> to an index of the whole registry and
  closes the popover. For an item of a filtered list, whatever the query, the index is
  the first one of the registry whose country has the name the item carries; for the
  \<open>j\<close>-th item of the unfiltered list it is \<open>j\<close>.\<close>

theorem select_registry_index:
  assumes "popoverActive s"
  shows "(\<forall>it \<in> set (retrieveCountries p q).
            \<exists>j<length (countries p).
               selectedCountry (runAction p (onAction it) s) = int j
             \<and> onAction it = SelectName (countryName (countries p ! j))
             \<and> (\<forall>m<j. countryName (countries p ! m) \<noteq> countryName (countries p ! j)))
       \<and> (\<forall>j<length (countries p).
            selectedCountry (runAction p (onAction (allCountries p ! j)) s) = int j)
       \<and> (\<forall>a. \<not> popoverActive (runAction p a s))"
proof (intro conjI ballI allI impI)
  fix it assume "it \<in> set (retrieveCountries p q)"
  then obtain c where c: "c \<in> set (countries p)" "it = candidate c"
    by (auto simp: retrieveCountries_def)
  from retrieveCountryIndex_found[OF c(1)] obtain j where
    "j < length (countries p)" "retrieveCountryIndex p (countryName c) = int j"
    "countryName (countries p ! j) = countryName c"
    "\<forall>m<j. countryName (countries p ! m) \<noteq> countryName c" by blast
  then show "\<exists>j<length (countries p).
               selectedCountry (runAction p (onAction it) s) = int j
             \<and> onAction it = SelectName (countryName (countries p ! j))
             \<and> (\<forall>m<j. countryName (countries p ! m) \<noteq> countryName (countries p ! j))"
    using c(2) by (intro exI[of _ j]) (simp add: candidate_def handleSelected_fields)
next
  fix j assume "j < length (countries p)"
  then show "selectedCountry (runAction p (onAction (allCountries p ! j)) s) = int j"
    by (simp add: allCountries_nth handleSelected_fields)
next
  fix a show "\<not> popoverActive (runAction p a s)"
    using assms by (cases a) (simp_all add: handleSelected_fields)
qed

theorem select_registry_index_witness:
  "popoverActive (handleSearchBar two_countries ''cam'' (initial two_countries))
   \<and> retrieveCountries two_countries ''cam'' = [candidate cameroon]
   \<and> selectedCountry (runAction two_countries (onAction (candidate cameroon))
        (handleSearchBar two_countries ''cam'' (initial two_countries))) = 1
   \<and> \<not> popoverActive (runAction two_countries (onAction (candidate cameroon))
        (handleSearchBar two_countries ''cam'' (initial two_countries)))"
  using select_registry_index
    [of "handleSearchBar two_countries ''cam'' (initial two_countries)" two_countries "''cam''"]
  by (simp add: example_defs machine_defs)

subsection \<open>Selections outside the current candidates\<close>

lemma allCountries_registry:
  "it \<in> set (allCountries p) \<Longrightarrow> registry_action p (onAction it)"
  by (auto simp: allCountries_def in_set_enumerate_eq)

lemma retrieveCountries_registry:
  "it \<in> set (retrieveCountries p q) \<Longrightarrow> registry_action p (onAction it)"
  by (auto simp: retrieveCountries_def candidate_def)

lemma runAction_valid_index:
  assumes "registry_action p a"
  shows "at_index (countries p) (selectedCountry (runAction p a s)) \<noteq> None"
proof (cases a)
  case (SelectIndex j)
  with assms show ?thesis by (simp add: handleSelected_fields at_index_def)
next
  case (SelectName n)
  with assms obtain c where "c \<in> set (countries p)" "countryName c = n" by auto
  with retrieveCountryIndex_found[of c p] SelectName show ?thesis
    by (auto simp: handleSelected_fields at_index_def)
qed

lemma render_ok:
  "at_index (countries p) (selectedCountry s) \<noteq> None \<Longrightarrow> \<exists>v. render p s = Inr v"
  by (auto simp: render_def Let_def)

lemma runAction_well_formed:
  assumes "registry_action p a"
  shows "well_formed p (runAction p a s)"
  using runAction_valid_index[OF assms, of s]
  by (cases a) (auto simp: well_formed_def handleSelected_fields allCountries_registry)

lemma dispatch_well_formed:
  assumes "well_formed p s"
  shows "\<exists>s'. dispatch p e s = Inr s' \<and> well_formed p s'"
proof (cases "offered p s e")
  case False
  with assms show ?thesis by (simp add: dispatch_def)
next
  case True
  have step: "\<exists>s'. dispatch p e s = Inr s' \<and> well_formed p s'"
    if "handle p e s = Inr t" "well_formed p t" for t
    using that True render_ok[of p t] by (auto simp: dispatch_def well_formed_def)
  show ?thesis
  proof (cases e)
    case ActivatorClick
    show ?thesis
      by (rule step[of "togglePopoverActive p s"])
        (use assms ActivatorClick in \<open>auto simp: well_formed_def togglePopoverActive_def allCountries_registry\<close>)
  next
    case PopoverClose
    show ?thesis
      by (rule step[of "togglePopoverActive p s"])
        (use assms PopoverClose in \<open>auto simp: well_formed_def togglePopoverActive_def allCountries_registry\<close>)
  next
    case (SearchChange q)
    show ?thesis
      by (rule step[of "handleSearchBar p q s"])
        (use assms SearchChange in \<open>auto simp: well_formed_def handleSearchBar_def retrieveCountries_registry\<close>)
  next
    case (ItemAction i)
    with True have "i < length (countryOptions s)" by simp
    with assms have "registry_action p (onAction (countryOptions s ! i))"
      by (simp add: well_formed_def)
    from runAction_well_formed[OF this, of s] show ?thesis
      by (intro step[of "runAction p (onAction (countryOptions s ! i)) s"])
        (simp_all add: ItemAction)
  next
    case (PhoneChange v)
    show ?thesis
      by (rule step[of "setPhoneNumber v s"])
        (use assms PhoneChange in \<open>auto simp: well_formed_def setPhoneNumber_def\<close>)
  next
    case PhoneBlur
    from assms obtain c where c: "at_index (countries p) (selectedCountry s) = Some c"
      by (auto simp: well_formed_def)
    show ?thesis
      by (rule step[OF _ _])
        (use assms PhoneBlur c in \<open>auto simp: onBlur_effect well_formed_def\<close>)
  qed
qed

lemma run_well_formed:
  "well_formed p s \<Longrightarrow> \<exists>s'. run p s es = Inr s' \<and> well_formed p s'"
proof (induction es arbitrary: s)
  case Nil
  then show ?case by simp
next
  case (Cons e es)
  from dispatch_well_formed[OF Cons.prems, of e] obtain t where
    t: "dispatch p e s = Inr t" "well_formed p t" by blast
  from Cons.IH[OF t(2)] t(1) show ?case by simp
qed

lemma mount_well_formed:
  assumes "mount p = Inr s0"
  shows "well_formed p s0"
proof -
  from assms have s0: "s0 = initial p" and r: "\<exists>v. render p (initial p) = Inr v"
    by (auto simp: mount_def split: sum.splits)
  from r have "at_index (countries p) (selectedCountry (initial p)) \<noteq> None"
    by (auto simp: render_def split: option.splits)
  then show ?thesis
    unfolding s0 well_formed_def by (auto simp: initial_def allCountries_registry)
qed

text \<open>Claim C7, as amended: selecting a name of the registry that is not among the current
  candidates is not rejected. In every state reached from the mounted field the selected
  index is an index of the registry and the listed items refer to the registry only, no
  event fails, and running the selection of any name of the registry sets
  \<open>selectedCountry\<close> to the first index of the registry whose country has that name and
  flips the popover flag: the index stays valid and the named country is the one picked.\<close>

theorem select_outside_candidates:
  assumes "mount p = Inr s0"
  shows "\<exists>s. run p s0 es = Inr s
           \<and> well_formed p s
           \<and> (\<forall>name \<in> countryName ` set (countries p).
                \<exists>j<length (countries p).
                   selectedCountry (runAction p (SelectName name) s) = int j
                 \<and> countryName (countries p ! j) = name
                 \<and> (\<forall>m<j. countryName (countries p ! m) \<noteq> name)
                 \<and> popoverActive (runAction p (SelectName name) s) = (\<not> popoverActive s))"
proof -
  from run_well_formed[OF mount_well_formed[OF assms], of es] obtain s where
    s: "run p s0 es = Inr s" "well_formed p s" by blast
  have "\<exists>j<length (countries p).
           selectedCountry (runAction p (SelectName name) s) = int j
         \<and> countryName (countries p ! j) = name
         \<and> (\<forall>m<j. countryName (countries p ! m) \<noteq> name)
         \<and> popoverActive (runAction p (SelectName name) s) = (\<not> popoverActive s)"
    if "name \<in> countryName ` set (countries p)" for name
  proof -
    from that obtain c where "c \<in> set (countries p)" "countryName c = name" by auto
    with retrieveCountryIndex_found[of c p] show ?thesis
      by (auto simp: handleSelected_fields)
  qed
  with s show ?thesis by blast
qed

theorem select_outside_candidates_witness:
  "mount two_countries = Inr (initial two_countries)
   \<and> (\<exists>s. run two_countries (initial two_countries)
             [ItemAction 1, ActivatorClick, SearchChange ''ca'', SearchChange ''cam''] = Inr s
        \<and> countryOptions s = [candidate cameroon]
        \<and> selectedCountry s = 1
        \<and> ''Canada'' \<in> countryName ` set (countries two_countries)
        \<and> selectedCountry (runAction two_countries (SelectName ''Canada'') s) = 0
        \<and> \<not> popoverActive (runAction two_countries (SelectName ''Canada'') s))"
  using select_outside_candidates [of two_countries "initial two_countries"
      "[ItemAction 1, ActivatorClick, SearchChange ''ca'', SearchChange ''cam'']"]
  by (simp add: example_defs machine_defs)

text \<open>Claim C7 as stated (a selection outside the current candidates changes no state)
  fails on the registry of Canada and Cameroon. With Cameroon selected, a search for
  \<open>ca\<close> builds the item of Canada; after the search is narrowed to \<open>cam\<close> the
  candidates are Cameroon alone, and running the action of the item of Canada moves the
  selected index from 1 to 0 and closes the popover. The setters of the action are
  constants and a functional update, so the action built in the earlier render has the
  same effect as one built in the current render.\<close>

theorem select_outside_candidates_counterexample:
  "(case run two_countries (initial two_countries)
           [ItemAction 1, ActivatorClick, SearchChange ''ca''] of
      Inl e \<Rightarrow> False
    | Inr s1 \<Rightarrow>
        countryOptions s1 = [candidate canada, candidate cameroon]
      \<and> onAction (countryOptions s1 ! 0) = SelectName ''Canada''
      \<and> (case dispatch two_countries (SearchChange ''cam'') s1 of
            Inl e \<Rightarrow> False
          | Inr s2 \<Rightarrow>
              countryOptions s2 = [candidate cameroon]
            \<and> SelectName ''Canada'' \<notin> onAction ` set (countryOptions s2)
            \<and> selectedCountry s2 = 1
            \<and> popoverActive s2
            \<and> selectedCountry (runAction two_countries (SelectName ''Canada'') s2) = 0
            \<and> \<not> popoverActive (runAction two_countries (SelectName ''Canada'') s2)
            \<and> runAction two_countries (SelectName ''Canada'') s2 \<noteq> s2))"
  by (simp add: example_defs machine_defs)

subsection \<open>Closing the popover\<close>

text \<open>Claim C8, as amended: a click on the activator or a close request of the popover
  host, while the popover is open, closes it and at once resets the search text to the
  empty string and the candidates to the items of the whole registry; the selected
  country, the phone input, the display value and the error are left as they are.\<close>

theorem close_resets_search:
  assumes "popoverActive s" and "e = ActivatorClick \<or> e = PopoverClose"
    and "handle p e s = Inr s'"
  shows "\<not> popoverActive s' \<and> searchBarText s' = '''' \<and> countryOptions s' = allCountries p
       \<and> selectedCountry s' = selectedCountry s \<and> phoneNumber s' = phoneNumber s
       \<and> formattedPhoneNumber s' = formattedPhoneNumber s \<and> error s' = error s"
  using assms by (auto simp: togglePopoverActive_def)

theorem close_resets_search_witness:
  "popoverActive (handleSearchBar two_countries ''cam'' (initial two_countries))
   \<and> handle two_countries PopoverClose
        (handleSearchBar two_countries ''cam'' (initial two_countries))
       = Inr (togglePopoverActive two_countries
                (handleSearchBar two_countries ''cam'' (initial two_countries)))
   \<and> \<not> popoverActive (togglePopoverActive two_countries
        (handleSearchBar two_countries ''cam'' (initial two_countries)))
   \<and> searchBarText (togglePopoverActive two_countries
        (handleSearchBar two_countries ''cam'' (initial two_countries))) = ''''
   \<and> countryOptions (togglePopoverActive two_countries
        (handleSearchBar two_countries ''cam'' (initial two_countries)))
       = allCountries two_countries"
  using close_resets_search
    [of "handleSearchBar two_countries ''cam'' (initial two_countries)" PopoverClose
      two_countries
      "togglePopoverActive two_countries
         (handleSearchBar two_countries ''cam'' (initial two_countries))"]
  by (simp add: handleSearchBar_def initial_def two_countries_def)

text \<open>Claim C8 as stated (closing leaves the search text and the candidates as they are)
  fails after a search for \<open>cam\<close>: closing empties the search text and brings the one
  candidate back to two.\<close>

theorem close_keeps_search_counterexample:
  "popoverActive (handleSearchBar two_countries ''cam'' (initial two_countries))
   \<and> searchBarText (handleSearchBar two_countries ''cam'' (initial two_countries)) = ''cam''
   \<and> searchBarText (togglePopoverActive two_countries
        (handleSearchBar two_countries ''cam'' (initial two_countries))) = ''''
   \<and> length (countryOptions (handleSearchBar two_countries ''cam'' (initial two_countries))) = 1
   \<and> length (countryOptions (togglePopoverActive two_countries
        (handleSearchBar two_countries ''cam'' (initial two_countries)))) = 2"
  by (simp add: example_defs machine_defs)

subsection \<open>The displayed phone value\<close>

text \<open>Claim C9, as amended: in every render the phone field shows the display value when
  it is neither \<open>null\<close> nor the empty string, and the raw input otherwise.\<close>

theorem displayed_value:
  assumes "render p s = Inr v"
  shows "textFieldValue v =
           (case formattedPhoneNumber s of
              None \<Rightarrow> phoneNumber s
            | Some f \<Rightarrow> if f = '''' then phoneNumber s else f)"
  using assms by (auto simp: render_def js_or_def split: option.splits)

theorem displayed_value_witness:
  "\<exists>v. render two_countries
          ((initial two_countries)\<lparr>phoneNumber := ''6135550100'',
             formattedPhoneNumber := Some ''(xxx) xxx-xxxx''\<rparr>) = Inr v
      \<and> textFieldValue v = ''(xxx) xxx-xxxx''"
  using displayed_value
    [of two_countries
      "(initial two_countries)\<lparr>phoneNumber := ''6135550100'',
         formattedPhoneNumber := Some ''(xxx) xxx-xxxx''\<rparr>"]
  by (simp add: example_defs machine_defs)

text \<open>Claim C9 as stated (a display value that is the empty string is shown) fails when
  Cameroon is selected, whose formatter keeps the digits, and \<open>abc\<close> is typed: after the
  blur the display value is the empty string and the field shows \<open>abc\<close>.\<close>

theorem displayed_value_counterexample:
  "(case run two_countries (initial two_countries)
           [ItemAction 1, PhoneChange ''abc'', PhoneBlur] of
      Inl e \<Rightarrow> False
    | Inr s \<Rightarrow> formattedPhoneNumber s = Some '''' \<and> phoneNumber s = ''abc''
         \<and> map_sum id textFieldValue (render two_countries s) = Inr ''abc'')"
  by (simp add: example_defs machine_defs)

subsection \<open>The popover at mount\<close>

lemma dispatch_keeps_closed:
  assumes "length (countries p) \<le> 1" and "\<not> popoverActive s" and "dispatch p e s = Inr s'"
  shows "\<not> popoverActive s'"
  using assms
  by (cases e)
    (auto simp: dispatch_def onBlur_def handleFormat_def setPhoneNumber_def
          split: if_splits sum.splits option.splits)

lemma run_keeps_closed:
  assumes "length (countries p) \<le> 1" and "\<not> popoverActive s" and "run p s es = Inr s'"
  shows "\<not> popoverActive s'"
  using assms(2,3)
proof (induction es arbitrary: s)
  case Nil
  then show ?case by simp
next
  case (Cons e es)
  then show ?case
    using dispatch_keeps_closed[OF assms(1)] by (auto split: sum.splits)
qed

text \<open>Claim C10: a mounted field has its popover open exactly when the registry has more
  than one country, and with one country the popover is closed after every sequence of
  events.\<close>

theorem popover_initially_open:
  assumes "mount p = Inr s0"
  shows "(popoverActive s0 \<longleftrightarrow> 1 < length (countries p))
       \<and> (length (countries p) = 1
            \<longrightarrow> (\<forall>es s. run p s0 es = Inr s \<longrightarrow> \<not> popoverActive s))"
proof -
  from assms have s0: "s0 = initial p"
    by (auto simp: mount_def split: sum.splits)
  have "popoverActive (initial p) \<longleftrightarrow> 1 < length (countries p)"
    by (simp add: initial_def)
  moreover have "\<not> popoverActive s"
    if "length (countries p) = 1" "run p (initial p) es = Inr s" for es s
    using run_keeps_closed[of p "initial p" es s] that by (simp add: initial_def)
  ultimately show ?thesis unfolding s0 by blast
qed

theorem popover_initially_open_witness:
  "mount one_country = Inr (initial one_country)
   \<and> length (countries one_country) = 1
   \<and> \<not> popoverActive (initial one_country)
   \<and> (\<exists>s. run one_country (initial one_country)
             [ActivatorClick, PopoverClose, PhoneChange ''555'', PhoneBlur] = Inr s
          \<and> \<not> popoverActive s)
   \<and> mount two_countries = Inr (initial two_countries)
   \<and> popoverActive (initial two_countries)"
  using popover_initially_open [of one_country "initial one_country"]
    popover_initially_open [of two_countries "initial two_countries"]
  by (simp add: example_defs machine_defs)

end
